theory Spec2Isabelle
  imports Main
begin

section \<open>The signaling relay (signaling/server.js)\<close>

text \<open>
  The relay is a WebSocket server with two module-level variables, \<open>sender\<close> (a socket or
  \<open>null\<close>) and \<open>viewers\<close> (a JavaScript \<open>Set\<close> of sockets), and one closure variable
  \<open>role\<close> per accepted connection. Every handler runs to completion on the single event
  loop, so a handler is a function from the state before it to the state after it.
  Console output is not modelled.
\<close>

subsection \<open>Data\<close>

text \<open>A socket object is identified by a number; \<open>===\<close> on sockets is equality of the numbers.\<close>

type_synonym conn = nat

text \<open>The four values of \<open>ws.readyState\<close>; the handlers compare against \<open>WebSocket.OPEN\<close> only.\<close>

datatype readyState = CONNECTING | OPEN | CLOSING | CLOSED

text \<open>
  What \<open>JSON.parse\<close> returns. The number carried by \<open>JNum\<close> is never inspected by the
  server. \<open>JObj\<close> lists the own properties of the parsed object, each key once.
\<close>

datatype json =
    JNull
  | JBool bool
  | JNum int
  | JStr string
  | JArr "json list"
  | JObj "(string \<times> json) list"

text \<open>A JavaScript value as the handlers see it: \<open>None\<close> is \<open>undefined\<close>.\<close>

type_synonym jsval = "json option"

text \<open>The only exception a handler can raise and not catch.\<close>

datatype error = TypeError

text \<open>
  The state: the two module variables, the \<open>role\<close> variable of each connection's closure,
  the \<open>readyState\<close> of every socket that exists (kept by the WebSocket library, read by
  the handlers) and the log of the calls of \<open>send\<close>, oldest first, each with its target
  socket and its payload.
\<close>

record relay =
  sender :: "conn option"
  viewers :: "conn list"
  role :: "conn \<Rightarrow> jsval"
  readyState :: "conn \<Rightarrow> readyState option"
  sent :: "(conn \<times> string) list"

subsection \<open>Primitives\<close>

text \<open>\<open>JSON.stringify({ type: 'sender-connected' })\<close> and its sibling.\<close>

definition sender_connected :: string where
  \<open>sender_connected = ''{"type":"sender-connected"}''\<close>

definition sender_disconnected :: string where
  \<open>sender_disconnected = ''{"type":"sender-disconnected"}''\<close>

text \<open>\<open>c.send(msg)\<close>: the call is recorded.\<close>

definition send :: "conn \<Rightarrow> string \<Rightarrow> relay \<Rightarrow> relay" where
  "send c msg st = st\<lparr>sent := sent st @ [(c, msg)]\<rparr>"

text \<open>\<open>c.readyState === WebSocket.OPEN\<close>.\<close>

definition is_open :: "relay \<Rightarrow> conn \<Rightarrow> bool" where
  "is_open st c = (readyState st c = Some OPEN)"

text \<open>
  \<open>viewers.add(ws)\<close> and \<open>viewers.delete(ws)\<close>: a \<open>Set\<close> keeps insertion order and holds
  an element at most once.
\<close>

definition set_add :: "conn \<Rightarrow> conn list \<Rightarrow> conn list" where
  "set_add c vs = (if c \<in> set vs then vs else vs @ [c])"

definition set_delete :: "conn \<Rightarrow> conn list \<Rightarrow> conn list" where
  "set_delete c vs = removeAll c vs"

text \<open>
  The loop \<open>for (const v of viewers) if (v.readyState === WebSocket.OPEN) v.send(msg)\<close>,
  which the source writes three times (lines 10, 41 and 44).
\<close>

fun send_if_open :: "conn list \<Rightarrow> string \<Rightarrow> relay \<Rightarrow> relay" where
  "send_if_open [] msg st = st"
| "send_if_open (v # vs) msg st =
     send_if_open vs msg (if is_open st v then send v msg st else st)"

definition broadcastToViewers :: "string \<Rightarrow> relay \<Rightarrow> relay" where
  "broadcastToViewers msg st = send_if_open (viewers st) msg st"

text \<open>
  Reading a property, \<open>data.type\<close> or \<open>data.role\<close>: of \<open>null\<close> it raises a TypeError,
  of an object it is the property's value or \<open>undefined\<close>, and of a boolean, a number,
  a string or an array it is \<open>undefined\<close> for these two names.
\<close>

fun js_prop :: "json \<Rightarrow> string \<Rightarrow> error + jsval" where
  "js_prop JNull k = Inl TypeError"
| "js_prop (JObj fs) k = Inr (map_of fs k)"
| "js_prop _ k = Inr None"

text \<open>\<open>sender?.readyState === WebSocket.OPEN\<close>.\<close>

definition sender_open :: "relay \<Rightarrow> bool" where
  "sender_open st = (case sender st of None \<Rightarrow> False | Some s \<Rightarrow> is_open st s)"

text \<open>\<open>sender.send(raw)\<close>; on \<open>null\<close> it would raise.\<close>

definition sender_send :: "string \<Rightarrow> relay \<Rightarrow> error + relay" where
  "sender_send raw st = (case sender st of None \<Rightarrow> Inl TypeError | Some s \<Rightarrow> Inr (send s raw st))"

subsection \<open>The handlers\<close>

text \<open>
  Lines 22 to 35, the branch \<open>data.type === 'role'\<close>, given the value \<open>r\<close> of \<open>data.role\<close>.
\<close>

definition declare_role :: "conn \<Rightarrow> jsval \<Rightarrow> relay \<Rightarrow> relay" where
  "declare_role ws r st =
     (let st1 = st\<lparr>role := (role st)(ws := r)\<rparr> in
      if r = Some (JStr ''sender'') then
        broadcastToViewers sender_connected (st1\<lparr>sender := Some ws\<rparr>)
      else if r = Some (JStr ''viewer'') then
        (let st2 = st1\<lparr>viewers := set_add ws (viewers st1)\<rparr> in
         if sender st2 \<noteq> None then send ws sender_connected st2
         else send ws sender_disconnected st2)
      else st1)"

text \<open>
  Lines 37 to 45, the relay of \<open>raw\<close> given the value \<open>ty\<close> of \<open>data.type\<close>.
\<close>

definition relay_signaling :: "conn \<Rightarrow> string \<Rightarrow> jsval \<Rightarrow> relay \<Rightarrow> error + relay" where
  "relay_signaling ws raw ty st =
     (if ty = Some (JStr ''offer'') \<and> role st ws = Some (JStr ''viewer'') \<and> sender_open st then
        sender_send raw st
      else if ty = Some (JStr ''answer'') \<and> role st ws = Some (JStr ''sender'') then
        Inr (send_if_open (viewers st) raw st)
      else if ty = Some (JStr ''ice-candidate'') then
        (case (if role st ws = Some (JStr ''viewer'') \<and> sender_open st
               then sender_send raw st else Inr st) of
           Inl e \<Rightarrow> Inl e
         | Inr st1 \<Rightarrow>
             Inr (if role st1 ws = Some (JStr ''sender'')
                  then send_if_open (viewers st1) raw st1 else st1))
      else Inr st)"

text \<open>
  \<open>ws.on('message', (raw) => ...)\<close>. \<open>JSON_parse\<close> is the library's parser: \<open>None\<close> when
  it throws (the handler catches that and returns), the parsed value otherwise.
\<close>

definition on_message :: "(string \<Rightarrow> json option) \<Rightarrow> conn \<Rightarrow> string \<Rightarrow> relay \<Rightarrow> error + relay" where
  "on_message JSON_parse ws raw st =
     (case JSON_parse raw of
        None \<Rightarrow> Inr st
      | Some data \<Rightarrow>
          (case js_prop data ''type'' of
             Inl e \<Rightarrow> Inl e
           | Inr ty \<Rightarrow>
               if ty = Some (JStr ''role'') then
                 (case js_prop data ''role'' of
                    Inl e \<Rightarrow> Inl e
                  | Inr r \<Rightarrow> Inr (declare_role ws r st))
               else relay_signaling ws raw ty st))"

text \<open>\<open>ws.on('close', () => ...)\<close>.\<close>

definition on_close :: "conn \<Rightarrow> relay \<Rightarrow> relay" where
  "on_close ws st =
     (let st1 = (if sender st = Some ws
                 then broadcastToViewers sender_disconnected (st\<lparr>sender := None\<rparr>)
                 else st)
      in st1\<lparr>viewers := set_delete ws (viewers st1)\<rparr>)"

subsection \<open>Runs of the relay\<close>

text \<open>
  The events of the server. \<open>Connection\<close> is \<open>wss.on('connection')\<close>, which creates the
  closure with \<open>role = 'unknown'\<close> for a new, open socket. \<open>Closing\<close> is the socket leaving
  the open state (the library sets \<open>readyState\<close> before it emits \<open>close\<close>); no handler of
  the server runs. \<open>Close\<close> is the \<open>close\<close> event, emitted once per socket, with
  \<open>readyState\<close> already \<open>CLOSED\<close>; no message arrives after it.
\<close>

datatype event =
    Connection conn
  | Message conn string
  | Closing conn
  | Close conn

definition init :: relay where
  "init = \<lparr>sender = None, viewers = [], role = (\<lambda>_. None),
           readyState = (\<lambda>_. None), sent = []\<rparr>"

fun enabled :: "event \<Rightarrow> relay \<Rightarrow> bool" where
  "enabled (Connection ws) st = (readyState st ws = None)"
| "enabled (Message ws raw) st = (readyState st ws = Some OPEN \<or> readyState st ws = Some CLOSING)"
| "enabled (Closing ws) st = (readyState st ws = Some OPEN)"
| "enabled (Close ws) st = (readyState st ws = Some OPEN \<or> readyState st ws = Some CLOSING)"

fun step :: "(string \<Rightarrow> json option) \<Rightarrow> event \<Rightarrow> relay \<Rightarrow> error + relay" where
  "step JSON_parse (Connection ws) st =
     Inr (st\<lparr>role := (role st)(ws := Some (JStr ''unknown'')),
             readyState := (readyState st)(ws \<mapsto> OPEN)\<rparr>)"
| "step JSON_parse (Message ws raw) st = on_message JSON_parse ws raw st"
| "step JSON_parse (Closing ws) st = Inr (st\<lparr>readyState := (readyState st)(ws \<mapsto> CLOSING)\<rparr>)"
| "step JSON_parse (Close ws) st =
     Inr (on_close ws (st\<lparr>readyState := (readyState st)(ws \<mapsto> CLOSED)\<rparr>))"

text \<open>
  A run from a state: \<open>None\<close> when an event cannot occur in the state it meets, or when a
  handler raises (the exception is not caught and the process ends).
\<close>

fun run :: "(string \<Rightarrow> json option) \<Rightarrow> event list \<Rightarrow> relay \<Rightarrow> relay option" where
  "run JSON_parse [] st = Some st"
| "run JSON_parse (ev # evs) st =
     (if enabled ev st then
        (case step JSON_parse ev st of Inl e \<Rightarrow> None | Inr st' \<Rightarrow> run JSON_parse evs st')
      else None)"

text \<open>
  A small parser for concrete runs: on each frame below it returns what \<open>JSON.parse\<close>
  returns, and it rejects every other text, as \<open>JSON.parse\<close> rejects text that is not
  JSON (the only other text used below is \<open>not json\<close>).
\<close>

definition role_sender_frame :: string where
  \<open>role_sender_frame = ''{"type":"role","role":"sender"}''\<close>

definition role_viewer_frame :: string where
  \<open>role_viewer_frame = ''{"type":"role","role":"viewer"}''\<close>

definition role_unknown_frame :: string where
  \<open>role_unknown_frame = ''{"type":"role","role":"unknown"}''\<close>

definition offer_frame :: string where
  \<open>offer_frame = ''{"type":"offer","sdp":"X"}''\<close>

definition answer_frame :: string where
  \<open>answer_frame = ''{"type":"answer","sdp":"Y"}''\<close>

definition ice_frame :: string where
  \<open>ice_frame = ''{"type":"ice-candidate","candidate":"Z"}''\<close>

definition null_frame :: string where
  "null_frame = ''null''"

definition sample_parse :: "string \<Rightarrow> json option" where
  "sample_parse raw =
     (if raw = role_sender_frame then
        Some (JObj [(''type'', JStr ''role''), (''role'', JStr ''sender'')])
      else if raw = role_viewer_frame then
        Some (JObj [(''type'', JStr ''role''), (''role'', JStr ''viewer'')])
      else if raw = role_unknown_frame then
        Some (JObj [(''type'', JStr ''role''), (''role'', JStr ''unknown'')])
      else if raw = offer_frame then
        Some (JObj [(''type'', JStr ''offer''), (''sdp'', JStr ''X'')])
      else if raw = answer_frame then
        Some (JObj [(''type'', JStr ''answer''), (''sdp'', JStr ''Y'')])
      else if raw = ice_frame then
        Some (JObj [(''type'', JStr ''ice-candidate''), (''candidate'', JStr ''Z'')])
      else if raw = null_frame then Some JNull
      else None)"


subsection \<open>Role declarations in a run\<close>

text \<open>
  The event is a frame from connection \<open>c\<close> that takes the branch \<open>data.type === 'role'\<close>,
  with \<open>data.role\<close> evaluating to \<open>r\<close>.
\<close>

definition declares :: "(string \<Rightarrow> json option) \<Rightarrow> conn \<Rightarrow> jsval \<Rightarrow> event \<Rightarrow> bool" where
  "declares JSON_parse c r ev =
     (case ev of
        Message c' raw \<Rightarrow>
          c' = c \<and> (case JSON_parse raw of
                      None \<Rightarrow> False
                    | Some data \<Rightarrow> js_prop data ''type'' = Inr (Some (JStr ''role''))
                                  \<and> js_prop data ''role'' = Inr r)
      | _ \<Rightarrow> False)"

definition is_role_declaration :: "(string \<Rightarrow> json option) \<Rightarrow> conn \<Rightarrow> event \<Rightarrow> bool" where
  "is_role_declaration JSON_parse c ev =
     (case ev of
        Message c' raw \<Rightarrow>
          c' = c \<and> (case JSON_parse raw of
                      None \<Rightarrow> False
                    | Some data \<Rightarrow> js_prop data ''type'' = Inr (Some (JStr ''role'')))
      | _ \<Rightarrow> False)"

text \<open>How many role declarations connection \<open>c\<close> has sent in the run.\<close>

definition role_declarations :: "(string \<Rightarrow> json option) \<Rightarrow> conn \<Rightarrow> event list \<Rightarrow> nat" where
  "role_declarations JSON_parse c evs = length (filter (is_role_declaration JSON_parse c) evs)"

definition declared :: "(string \<Rightarrow> json option) \<Rightarrow> conn \<Rightarrow> jsval \<Rightarrow> event list \<Rightarrow> bool" where
  "declared JSON_parse c r evs = (\<exists>ev \<in> set evs. declares JSON_parse c r ev)"

subsection \<open>Sample states\<close>

text \<open>Connection 0 has declared itself sender; nobody else is connected.\<close>

definition sender_only :: relay where
  "sender_only =
     \<lparr>sender = Some 0, viewers = [],
      role = (\<lambda>_. None)(0 := Some (JStr ''sender'')),
      readyState = (\<lambda>_. None)(0 \<mapsto> OPEN), sent = []\<rparr>"

text \<open>
  A sender 0, an open viewer 1, a viewer 2 whose socket is closing, and a connection 3
  that has declared nothing.
\<close>

definition live :: relay where
  "live =
     \<lparr>sender = Some 0, viewers = [1, 2],
      role = (\<lambda>_. None)(0 := Some (JStr ''sender''), 1 := Some (JStr ''viewer''),
                        2 := Some (JStr ''viewer''), 3 := Some (JStr ''unknown'')),
      readyState = (\<lambda>_. None)(0 \<mapsto> OPEN, 1 \<mapsto> OPEN, 2 \<mapsto> CLOSING, 3 \<mapsto> OPEN),
      sent = [(1, sender_disconnected), (1, sender_connected), (2, sender_connected)]\<rparr>"

definition live_events :: "event list" where
  "live_events =
     [Connection 0, Connection 1, Connection 2, Connection 3,
      Message 1 role_viewer_frame, Message 0 role_sender_frame,
      Message 2 role_viewer_frame, Closing 2]"

text \<open>
  The sender 0 is registered and its socket has left the open state, its \<open>close\<close> event
  still to come; connection 1 has declared nothing yet.
\<close>

definition sender_closing :: relay where
  "sender_closing =
     \<lparr>sender = Some 0, viewers = [],
      role = (\<lambda>_. None)(0 := Some (JStr ''sender''), 1 := Some (JStr ''unknown'')),
      readyState = (\<lambda>_. None)(0 \<mapsto> CLOSING, 1 \<mapsto> OPEN), sent = []\<rparr>"

text \<open>No sender; connection 1 is a viewer.\<close>

definition viewer_only :: relay where
  "viewer_only =
     \<lparr>sender = None, viewers = [1],
      role = (\<lambda>_. None)(1 := Some (JStr ''viewer'')),
      readyState = (\<lambda>_. None)(1 \<mapsto> OPEN), sent = [(1, sender_disconnected)]\<rparr>"

text \<open>Connection 0 has declared itself sender and then viewer; connection 1 is a viewer.\<close>

definition both_roles :: relay where
  "both_roles =
     \<lparr>sender = Some 0, viewers = [1, 0],
      role = (\<lambda>_. None)(0 := Some (JStr ''viewer''), 1 := Some (JStr ''viewer'')),
      readyState = (\<lambda>_. None)(0 \<mapsto> OPEN, 1 \<mapsto> OPEN),
      sent = [(1, sender_disconnected), (1, sender_connected), (0, sender_connected)]\<rparr>"

section \<open>The controller (controller.js)\<close>

text \<open>
  The controller keeps two module variables, \<open>signalingServer\<close> and \<open>streamerProcess\<close>,
  each a child process or \<open>null\<close>. The state also records what the handlers do to the
  outside: the calls of \<open>spawn\<close> (a child's handle is its position in that list), the
  calls of \<open>kill\<close>, the lines written to the console and the bodies passed to \<open>res.json\<close>.
  \<open>spawn\<close> returns a handle whether or not the program can be launched; a failure to
  launch arrives later as the child's \<open>error\<close> event.
\<close>

type_synonym proc = nat

record child =
  command :: string
  args :: "string list"

record response =
  ok :: bool
  status :: string

datatype signal = SIGINT

datatype log_line =
    Starting_signaling
  | Starting_streamer
  | Streamer_exited "int option"
  | Streamer_error string
  | Stopping_streamer

record controller =
  signalingServer :: "proc option"
  streamerProcess :: "proc option"
  children :: "child list"
  kills :: "(proc \<times> signal) list"
  console :: "log_line list"
  replies :: "response list"

definition spawn :: "string \<Rightarrow> string list \<Rightarrow> controller \<Rightarrow> proc \<times> controller" where
  "spawn cmd as st =
     (length (children st), st\<lparr>children := children st @ [\<lparr>command = cmd, args = as\<rparr>]\<rparr>)"

text \<open>\<open>res.json(body)\<close>.\<close>

definition res_json :: "response \<Rightarrow> controller \<Rightarrow> controller" where
  "res_json body st = st\<lparr>replies := replies st @ [body]\<rparr>"

definition console_log :: "log_line \<Rightarrow> controller \<Rightarrow> controller" where
  "console_log l st = st\<lparr>console := console st @ [l]\<rparr>"

text \<open>\<open>startSignalingServer()\<close>, called once when the controller starts.\<close>

definition startSignalingServer :: "controller \<Rightarrow> controller" where
  "startSignalingServer st =
     (if signalingServer st \<noteq> None then st
      else
        (let (p, st1) = spawn ''node'' [''signaling/server.js''] (console_log Starting_signaling st)
         in st1\<lparr>signalingServer := Some p\<rparr>))"

text \<open>\<open>app.post('/start', ...)\<close>.\<close>

definition post_start :: "controller \<Rightarrow> controller" where
  "post_start st =
     (if streamerProcess st \<noteq> None then res_json \<lparr>ok = True, status = ''already-running''\<rparr> st
      else
        (let (p, st1) = spawn ''python3'' [''src/webrtc_streamer.py'']
                          (console_log Starting_streamer st)
         in res_json \<lparr>ok = True, status = ''started''\<rparr> (st1\<lparr>streamerProcess := Some p\<rparr>)))"

text \<open>
  The two handlers that \<open>/start\<close> registers on the child it spawned, for the events
  \<open>exit\<close> (with the exit code, \<open>null\<close> when a signal ended the child) and \<open>error\<close>.
\<close>

definition streamer_on_exit :: "int option \<Rightarrow> controller \<Rightarrow> controller" where
  "streamer_on_exit code st = (console_log (Streamer_exited code) st)\<lparr>streamerProcess := None\<rparr>"

definition streamer_on_error :: "string \<Rightarrow> controller \<Rightarrow> controller" where
  "streamer_on_error err st = (console_log (Streamer_error err) st)\<lparr>streamerProcess := None\<rparr>"

text \<open>\<open>app.post('/stop', ...)\<close>.\<close>

definition post_stop :: "controller \<Rightarrow> controller" where
  "post_stop st =
     (case streamerProcess st of
        None \<Rightarrow> res_json \<lparr>ok = True, status = ''not-running''\<rparr> st
      | Some p \<Rightarrow>
          (let st1 = console_log Stopping_streamer st;
               st2 = st1\<lparr>kills := kills st1 @ [(p, SIGINT)]\<rparr>
           in res_json \<lparr>ok = True, status = ''stopping''\<rparr> (st2\<lparr>streamerProcess := None\<rparr>)))"

text \<open>The controller once its module body has run.\<close>

definition booted :: controller where
  "booted = startSignalingServer
     \<lparr>signalingServer = None, streamerProcess = None, children = [], kills = [],
      console = [], replies = []\<rparr>"


section \<open>Auxiliary facts\<close>

subsection \<open>What each handler does to the state\<close>

lemma is_open_send [simp]: "is_open (send v msg st) c = is_open st c"
  by (simp add: is_open_def send_def)

lemma send_if_open_eq:
  "send_if_open vs msg st =
     st\<lparr>sent := sent st @ map (\<lambda>v. (v, msg)) (filter (is_open st) vs)\<rparr>"
proof (induction vs arbitrary: st)
  case Nil
  show ?case by simp
next
  case (Cons v vs)
  have io: "is_open (send v msg st) = is_open st" by (rule ext) simp
  show ?case by (simp add: Cons io) (simp add: send_def)
qed

lemma declare_role_eq:
  "declare_role ws r st =
     st\<lparr>role := (role st)(ws := r),
        sender := (if r = Some (JStr ''sender'') then Some ws else sender st),
        viewers := (if r = Some (JStr ''viewer'') then set_add ws (viewers st) else viewers st),
        sent := sent st @
          (if r = Some (JStr ''sender'')
           then map (\<lambda>v. (v, sender_connected)) (filter (is_open st) (viewers st))
           else if r = Some (JStr ''viewer'')
           then [(ws, if sender st \<noteq> None then sender_connected else sender_disconnected)]
           else [])\<rparr>"
  by (simp add: declare_role_def Let_def broadcastToViewers_def send_if_open_eq send_def
      is_open_def [abs_def])

lemma relay_signaling_fields:
  assumes "relay_signaling ws raw ty st = Inr st'"
  shows "sender st' = sender st \<and> viewers st' = viewers st \<and> role st' = role st
         \<and> readyState st' = readyState st"
  using assms
  by (auto simp: relay_signaling_def sender_send_def send_if_open_eq send_def
      split: if_splits option.splits sum.splits)

lemma on_close_eq:
  "on_close ws st =
     st\<lparr>sender := (if sender st = Some ws then None else sender st),
        viewers := set_delete ws (viewers st),
        sent := sent st @
          (if sender st = Some ws
           then map (\<lambda>v. (v, sender_disconnected)) (filter (is_open st) (viewers st))
           else [])\<rparr>"
  by (simp add: on_close_def Let_def broadcastToViewers_def send_if_open_eq
      is_open_def [abs_def])

lemma on_message_cases:
  assumes "on_message JSON_parse ws raw st = Inr st'"
  obtains (role_decl) r where "declares JSON_parse ws r (Message ws raw)"
      and "st' = declare_role ws r st"
  | (other) "\<not> is_role_declaration JSON_parse ws (Message ws raw)"
      and "sender st' = sender st" and "viewers st' = viewers st" and "role st' = role st"
      and "readyState st' = readyState st"
  using assms
  by (auto simp: on_message_def declares_def is_role_declaration_def
      split: option.splits sum.splits if_splits dest: relay_signaling_fields)

lemma run_snoc:
  "run JSON_parse (evs @ [ev]) st0 =
     (case run JSON_parse evs st0 of
        None \<Rightarrow> None
      | Some st \<Rightarrow>
          if enabled ev st
          then (case step JSON_parse ev st of Inl e \<Rightarrow> None | Inr st' \<Rightarrow> Some st')
          else None)"
  by (induction evs arbitrary: st0) (auto split: sum.splits)

lemma run_induct [consumes 1, case_names start event]:
  assumes "run JSON_parse evs st0 = Some st"
    and "Q [] st0"
    and "\<And>evs st ev st'. run JSON_parse evs st0 = Some st \<Longrightarrow> Q evs st \<Longrightarrow> enabled ev st \<Longrightarrow>
           step JSON_parse ev st = Inr st' \<Longrightarrow> Q (evs @ [ev]) st'"
  shows "Q evs st"
  using assms(1)
proof (induction evs arbitrary: st rule: rev_induct)
  case Nil
  with assms(2) show ?case by simp
next
  case (snoc ev evs)
  from snoc.prems obtain st1 where r: "run JSON_parse evs st0 = Some st1"
    and e: "enabled ev st1" and s: "step JSON_parse ev st1 = Inr st"
    by (auto simp: run_snoc split: option.splits if_splits sum.splits)
  from assms(3) [OF r snoc.IH [OF r] e s] show ?case .
qed


lemma declares_is_role_declaration:
  "declares JSON_parse c r ev \<Longrightarrow> is_role_declaration JSON_parse c ev"
  by (auto simp: declares_def is_role_declaration_def split: event.splits option.splits)

lemma declares_functional:
  "declares JSON_parse c r ev \<Longrightarrow> declares JSON_parse c r' ev \<Longrightarrow> r = r'"
  by (auto simp: declares_def split: event.splits option.splits)

lemma declared_snoc:
  "declared JSON_parse c r (evs @ [ev]) \<longleftrightarrow>
     declared JSON_parse c r evs \<or> declares JSON_parse c r ev"
  by (auto simp: declared_def)

lemma role_declarations_snoc:
  "role_declarations JSON_parse c (evs @ [ev]) =
     role_declarations JSON_parse c evs + (if is_role_declaration JSON_parse c ev then 1 else 0)"
  by (simp add: role_declarations_def)

lemma declared_role_declarations:
  "declared JSON_parse c r evs \<Longrightarrow> 1 \<le> role_declarations JSON_parse c evs"
proof -
  assume "declared JSON_parse c r evs"
  then obtain ev where "ev \<in> set evs" and "is_role_declaration JSON_parse c ev"
    by (auto simp: declared_def dest: declares_is_role_declaration)
  then have "filter (is_role_declaration JSON_parse c) evs \<noteq> []"
    by (auto simp: filter_empty_conv)
  then show ?thesis
    unfolding role_declarations_def by (cases "filter (is_role_declaration JSON_parse c) evs") auto
qed

lemma two_roles_two_declarations:
  assumes "declared JSON_parse c r1 evs" and "declared JSON_parse c r2 evs" and "r1 \<noteq> r2"
  shows "2 \<le> role_declarations JSON_parse c evs"
  using assms
proof (induction evs rule: rev_induct)
  case Nil
  then show ?case by (simp add: declared_def)
next
  case (snoc ev evs)
  show ?case
  proof (cases "declares JSON_parse c r1 ev")
    case True
    with snoc.prems(3) have "\<not> declares JSON_parse c r2 ev"
      using declares_functional by blast
    with snoc.prems(2) have "declared JSON_parse c r2 evs" by (simp add: declared_snoc)
    from declared_role_declarations [OF this] True show ?thesis
      by (simp add: role_declarations_snoc declares_is_role_declaration)
  next
    case False
    with snoc.prems(1) have d1: "declared JSON_parse c r1 evs" by (simp add: declared_snoc)
    show ?thesis
    proof (cases "declares JSON_parse c r2 ev")
      case True
      from declared_role_declarations [OF d1] True show ?thesis
        by (simp add: role_declarations_snoc declares_is_role_declaration)
    next
      case False
      with snoc.prems(2) have "declared JSON_parse c r2 evs" by (simp add: declared_snoc)
      from snoc.IH [OF d1 this snoc.prems(3)] show ?thesis
        by (simp add: role_declarations_snoc)
    qed
  qed
qed

lemma no_declaration_before_connection:
  assumes "run JSON_parse evs init = Some st"
  shows "readyState st c = None \<Longrightarrow> role_declarations JSON_parse c evs = 0"
  using assms
proof (induction arbitrary: c rule: run_induct)
  case start
  show ?case by (simp add: role_declarations_def)
next
  case (event evs st ev st')
  show ?case
  proof (cases ev)
    case (Connection ws)
    with event show ?thesis
      by (auto simp: role_declarations_snoc is_role_declaration_def split: if_splits)
  next
    case (Message ws raw)
    with event.hyps have m: "on_message JSON_parse ws raw st = Inr st'"
      and o: "readyState st ws \<noteq> None" by auto
    from m have rs: "readyState st' = readyState st"
      by (cases rule: on_message_cases) (simp_all add: declare_role_eq)
    with o event.prems have "c \<noteq> ws" by auto
    with event.IH [of c] event.prems rs Message show ?thesis
      by (simp add: role_declarations_snoc is_role_declaration_def)
  next
    case (Closing ws)
    with event show ?thesis
      by (auto simp: role_declarations_snoc is_role_declaration_def split: if_splits)
  next
    case (Close ws)
    with event show ?thesis
      by (auto simp: role_declarations_snoc is_role_declaration_def on_close_eq split: if_splits)
  qed
qed

lemma sender_has_declared:
  assumes "run JSON_parse evs init = Some st"
  shows "sender st = Some c \<Longrightarrow> declared JSON_parse c (Some (JStr ''sender'')) evs"
  using assms
proof (induction arbitrary: c rule: run_induct)
  case start
  then show ?case by (simp add: init_def)
next
  case (event evs st ev st')
  show ?case
  proof (cases ev)
    case (Message ws raw)
    with event.hyps have m: "on_message JSON_parse ws raw st = Inr st'" by simp
    from m show ?thesis
    proof (cases rule: on_message_cases)
      case (role_decl r)
      with event.prems event.IH [of c] Message show ?thesis
        by (auto simp: declare_role_eq declared_snoc split: if_splits)
    next
      case other
      with event.prems event.IH [of c] show ?thesis by (simp add: declared_snoc)
    qed
  qed (use event in \<open>auto simp: declared_snoc on_close_eq split: if_splits\<close>)
qed

lemma viewer_has_declared:
  assumes "run JSON_parse evs init = Some st"
  shows "c \<in> set (viewers st) \<Longrightarrow> declared JSON_parse c (Some (JStr ''viewer'')) evs"
  using assms
proof (induction arbitrary: c rule: run_induct)
  case start
  then show ?case by (simp add: init_def)
next
  case (event evs st ev st')
  show ?case
  proof (cases ev)
    case (Message ws raw)
    with event.hyps have m: "on_message JSON_parse ws raw st = Inr st'" by simp
    from m show ?thesis
    proof (cases rule: on_message_cases)
      case (role_decl r)
      with event.prems event.IH [of c] Message show ?thesis
        by (auto simp: declare_role_eq declared_snoc set_add_def split: if_splits)
    next
      case other
      with event.prems event.IH [of c] show ?thesis by (simp add: declared_snoc)
    qed
  qed (use event in \<open>auto simp: declared_snoc on_close_eq set_delete_def split: if_splits\<close>)
qed

lemma viewers_distinct:
  assumes "run JSON_parse evs init = Some st"
  shows "distinct (viewers st)"
  using assms
proof (induction rule: run_induct)
  case start
  then show ?case by (simp add: init_def)
next
  case (event evs st ev st')
  show ?case
  proof (cases ev)
    case (Message ws raw)
    with event.hyps have m: "on_message JSON_parse ws raw st = Inr st'" by simp
    from m show ?thesis
    proof (cases rule: on_message_cases)
      case (role_decl r)
      with event.IH show ?thesis
        by (auto simp: declare_role_eq set_add_def)
    next
      case other
      with event.IH show ?thesis by simp
    qed
  qed (use event in \<open>auto simp: on_close_eq set_delete_def distinct_removeAll\<close>)
qed

lemma unknown_role_not_declared:
  assumes "run JSON_parse evs init = Some st"
  shows "role_declarations JSON_parse c evs \<le> 1 \<Longrightarrow> role st c = Some (JStr ''unknown'') \<Longrightarrow>
         \<not> declared JSON_parse c (Some (JStr ''sender'')) evs
         \<and> \<not> declared JSON_parse c (Some (JStr ''viewer'')) evs"
  using assms
proof (induction arbitrary: c rule: run_induct)
  case start
  then show ?case by (simp add: declared_def)
next
  case (event evs st ev st')
  have nd: "\<not> declared JSON_parse c r evs" if "role_declarations JSON_parse c evs = 0" for r
    using that declared_role_declarations [of JSON_parse c r evs] by auto
  show ?case
  proof (cases ev)
    case (Connection ws)
    show ?thesis
    proof (cases "ws = c")
      case True
      with event.hyps Connection have "readyState st c = None" by simp
      from no_declaration_before_connection [OF event.hyps(1) this] Connection
      show ?thesis by (simp add: declared_snoc declares_def nd)
    next
      case False
      with event Connection show ?thesis
        by (auto simp: declared_snoc declares_def role_declarations_snoc is_role_declaration_def)
    qed
  next
    case (Message ws raw)
    with event.hyps have m: "on_message JSON_parse ws raw st = Inr st'" by simp
    from m show ?thesis
    proof (cases rule: on_message_cases)
      case (role_decl r)
      show ?thesis
      proof (cases "ws = c")
        case True
        with role_decl Message have "is_role_declaration JSON_parse c ev"
          by (simp add: declares_is_role_declaration)
        with event.prems(1) have z: "role_declarations JSON_parse c evs = 0"
          by (simp add: role_declarations_snoc)
        from role_decl True event.prems(2) have "r = Some (JStr ''unknown'')"
          by (simp add: declare_role_eq)
        with role_decl(1) True Message
        have "\<not> declares JSON_parse c (Some (JStr ''sender'')) ev"
          and "\<not> declares JSON_parse c (Some (JStr ''viewer'')) ev"
          by (auto dest: declares_functional)
        with z show ?thesis by (simp add: declared_snoc nd)
      next
        case False
        with Message have ne: "\<not> declares JSON_parse c r' ev" "\<not> is_role_declaration JSON_parse c ev" for r'
          by (auto simp: declares_def is_role_declaration_def)
        from role_decl False event.prems(2) have "role st c = Some (JStr ''unknown'')"
          by (simp add: declare_role_eq)
        with event.IH [of c] event.prems(1) ne show ?thesis
          by (simp add: declared_snoc role_declarations_snoc)
      qed
    next
      case other
      then have ne: "\<not> declares JSON_parse c r' ev" for r'
        using Message by (auto simp: declares_def is_role_declaration_def split: option.splits)
      from other event.prems(2) have "role st c = Some (JStr ''unknown'')" by simp
      with event.IH [of c] event.prems(1) ne show ?thesis
        by (simp add: declared_snoc role_declarations_snoc split: if_splits)
    qed
  next
    case (Closing ws)
    with event.prems event.hyps event.IH [of c] show ?thesis
      by (auto simp: declared_snoc declares_def role_declarations_snoc is_role_declaration_def)
  next
    case (Close ws)
    with event.prems event.hyps event.IH [of c] show ?thesis
      by (auto simp: declared_snoc declares_def role_declarations_snoc is_role_declaration_def
          on_close_eq)
  qed
qed


lemma undeclared_not_registered:
  assumes "run JSON_parse evs init = Some st"
    and "role_declarations JSON_parse c evs = 0"
  shows "sender st \<noteq> Some c \<and> c \<notin> set (viewers st)"
proof -
  have "\<not> declared JSON_parse c r evs" for r
    using assms(2) declared_role_declarations [of JSON_parse c r evs] by auto
  with sender_has_declared [OF assms(1), of c] viewer_has_declared [OF assms(1), of c]
  show ?thesis by auto
qed

subsection \<open>The sample parser and the sample states\<close>

lemmas frames = role_sender_frame_def role_viewer_frame_def role_unknown_frame_def
  offer_frame_def answer_frame_def ice_frame_def null_frame_def

lemma sample_parse_simps:
  "sample_parse role_sender_frame =
     Some (JObj [(''type'', JStr ''role''), (''role'', JStr ''sender'')])"
  "sample_parse role_viewer_frame =
     Some (JObj [(''type'', JStr ''role''), (''role'', JStr ''viewer'')])"
  "sample_parse role_unknown_frame =
     Some (JObj [(''type'', JStr ''role''), (''role'', JStr ''unknown'')])"
  "sample_parse offer_frame = Some (JObj [(''type'', JStr ''offer''), (''sdp'', JStr ''X'')])"
  "sample_parse answer_frame = Some (JObj [(''type'', JStr ''answer''), (''sdp'', JStr ''Y'')])"
  "sample_parse ice_frame =
     Some (JObj [(''type'', JStr ''ice-candidate''), (''candidate'', JStr ''Z'')])"
  "sample_parse null_frame = Some JNull"
  by (simp_all add: sample_parse_def frames)

lemma sample_parse_not_json: "sample_parse ''not json'' = None"
  by (simp add: sample_parse_def frames)

lemma notifications_differ: "sender_connected \<noteq> sender_disconnected"
  by (simp add: sender_connected_def sender_disconnected_def)

lemmas run_simps = sample_parse_simps init_def on_message_def declare_role_eq on_close_eq
  relay_signaling_def set_add_def set_delete_def is_open_def fun_upd_twist

lemma sender_only_reachable:
  "run sample_parse [Connection 0, Message 0 role_sender_frame] init = Some sender_only"
  by (simp add: run_simps sender_only_def)

lemma live_reachable: "run sample_parse live_events init = Some live"
  by (simp add: run_simps live_def live_events_def)

lemma sender_closing_reachable:
  "run sample_parse [Connection 0, Message 0 role_sender_frame, Connection 1, Closing 0] init
     = Some sender_closing"
  by (simp add: run_simps sender_closing_def)

lemma viewer_only_reachable:
  "run sample_parse [Connection 1, Message 1 role_viewer_frame] init = Some viewer_only"
  by (simp add: run_simps viewer_only_def)

lemma both_roles_reachable:
  "run sample_parse
     [Connection 0, Connection 1, Message 1 role_viewer_frame, Message 0 role_sender_frame,
      Message 0 role_viewer_frame] init = Some both_roles"
  by (simp add: run_simps both_roles_def)

text \<open>
  The frame \<open>null\<close> is JSON, so \<open>JSON.parse\<close> returns and the \<open>catch\<close> is not taken;
  reading \<open>data.type\<close> then raises, whatever the connection and the state.
\<close>

lemma null_frame_raises: "on_message sample_parse ws null_frame st = Inl TypeError"
  by (simp add: on_message_def sample_parse_simps)

section \<open>The relay: registry and roles\<close>

text \<open>
  The claim C1 as stated fails. A connection that declares \<open>sender\<close> and then \<open>viewer\<close>
  is the current sender and a member of the viewer set at once; a connection that
  declares \<open>sender\<close> and then sends a declaration with role \<open>unknown\<close> has the role
  \<open>unknown\<close> and still holds the sender slot. The handler assigns \<open>role = data.role\<close> on
  every declaration and has no test for a role already set.
\<close>

theorem registry_overlap_counterexample:
  "run sample_parse
     [Connection 0, Connection 1, Message 1 role_viewer_frame, Message 0 role_sender_frame,
      Message 0 role_viewer_frame] init = Some both_roles
   \<and> sender both_roles = Some 0 \<and> 0 \<in> set (viewers both_roles)
   \<and> run sample_parse
        [Connection 0, Message 0 role_sender_frame, Message 0 role_unknown_frame] init
      = Some (sender_only\<lparr>role := (role sender_only)(0 := Some (JStr ''unknown''))\<rparr>)
   \<and> sender sender_only = Some 0"
  by (simp add: run_simps both_roles_def sender_only_def)

text \<open>
  C1, amended. In every state the relay reaches from its start, the sender slot holds at
  most one connection; a connection that has sent at most one role declaration is never
  both the current sender and a member of the viewer set; and such a connection, when its
  role is \<open>unknown\<close>, is neither.
\<close>

theorem registry_invariant:
  assumes "run JSON_parse evs init = Some st"
  shows "card {c. sender st = Some c} \<le> 1
       \<and> (\<forall>c. role_declarations JSON_parse c evs \<le> 1 \<longrightarrow>
              \<not> (sender st = Some c \<and> c \<in> set (viewers st)))
       \<and> (\<forall>c. role_declarations JSON_parse c evs \<le> 1 \<and> role st c = Some (JStr ''unknown'') \<longrightarrow>
              sender st \<noteq> Some c \<and> c \<notin> set (viewers st))"
proof (intro conjI allI impI)
  show "card {c. sender st = Some c} \<le> 1"
    by (cases "sender st") simp_all
next
  fix c
  assume le: "role_declarations JSON_parse c evs \<le> 1"
  show "\<not> (sender st = Some c \<and> c \<in> set (viewers st))"
  proof
    assume both: "sender st = Some c \<and> c \<in> set (viewers st)"
    from both sender_has_declared [OF assms] viewer_has_declared [OF assms]
    have "declared JSON_parse c (Some (JStr ''sender'')) evs"
      and "declared JSON_parse c (Some (JStr ''viewer'')) evs" by auto
    from two_roles_two_declarations [OF this] le show False by simp
  qed
next
  fix c
  assume h: "role_declarations JSON_parse c evs \<le> 1 \<and> role st c = Some (JStr ''unknown'')"
  with unknown_role_not_declared [OF assms, of c]
  have n: "\<not> declared JSON_parse c (Some (JStr ''sender'')) evs"
    "\<not> declared JSON_parse c (Some (JStr ''viewer'')) evs" by auto
  from n sender_has_declared [OF assms, of c] show "sender st \<noteq> Some c" by auto
  from n viewer_has_declared [OF assms, of c] show "c \<notin> set (viewers st)" by auto
qed

theorem registry_invariant_witness:
  "run sample_parse live_events init = Some live
   \<and> card {c. sender live = Some c} \<le> 1
   \<and> role_declarations sample_parse 1 live_events \<le> 1
   \<and> \<not> (sender live = Some 1 \<and> 1 \<in> set (viewers live))
   \<and> role_declarations sample_parse 3 live_events \<le> 1
   \<and> role live 3 = Some (JStr ''unknown'')
   \<and> sender live \<noteq> Some 3 \<and> 3 \<notin> set (viewers live)"
proof -
  have d1: "role_declarations sample_parse 1 live_events \<le> 1"
    by (simp add: role_declarations_def is_role_declaration_def live_events_def
        sample_parse_simps)
  have d3: "role_declarations sample_parse 3 live_events \<le> 1"
    by (simp add: role_declarations_def is_role_declaration_def live_events_def
        sample_parse_simps)
  have r3: "role live 3 = Some (JStr ''unknown'')" by (simp add: live_def)
  from registry_invariant [OF live_reachable] d1 d3 r3 live_reachable
  show ?thesis by blast
qed


text \<open>
  The claim C2 as stated fails where it makes the notification depend on the sender's
  socket being open. In \<open>sender_closing\<close>, a state the relay reaches, the sender slot
  holds connection 0, whose socket is no longer open; the viewer declaring itself is told \<open>sender-connected\<close>, where the
  claim says \<open>sender-disconnected\<close>. The branch tests \<open>if (sender)\<close> and does not read
  \<open>sender.readyState\<close>.
\<close>

theorem viewer_join_counterexample:
  "run sample_parse [Connection 0, Message 0 role_sender_frame, Connection 1, Closing 0] init
     = Some sender_closing
   \<and> sender sender_closing = Some 0 \<and> \<not> sender_open sender_closing
   \<and> on_message sample_parse 1 role_viewer_frame sender_closing =
       Inr (sender_closing\<lparr>role := (role sender_closing)(1 := Some (JStr ''viewer'')),
                           viewers := [1], sent := [(1, sender_connected)]\<rparr>)
   \<and> sender_connected \<noteq> sender_disconnected"
  by (simp add: run_simps sender_closing_def sender_open_def notifications_differ)

text \<open>
  C2, amended. When a connection sends a role declaration with role \<open>viewer\<close>, the handler
  returns normally having called \<open>send\<close> exactly once, on that connection: with
  \<open>sender-connected\<close> if the sender slot is non-empty (whether or not the sender's socket
  is open), with \<open>sender-disconnected\<close> if the slot is empty. Besides, the connection's
  role is \<open>viewer\<close> and it is in the viewer set.
\<close>

theorem viewer_join_notified:
  assumes "JSON_parse raw = Some data"
    and "js_prop data ''type'' = Inr (Some (JStr ''role''))"
    and "js_prop data ''role'' = Inr (Some (JStr ''viewer''))"
  shows "on_message JSON_parse ws raw st =
           Inr (st\<lparr>role := (role st)(ws := Some (JStr ''viewer'')),
                   viewers := set_add ws (viewers st),
                   sent := sent st @ [(ws, if sender st \<noteq> None then sender_connected
                                           else sender_disconnected)]\<rparr>)"
  using assms by (simp add: on_message_def declare_role_def send_def Let_def)

theorem viewer_join_notified_witness:
  "sample_parse role_viewer_frame =
     Some (JObj [(''type'', JStr ''role''), (''role'', JStr ''viewer'')])
   \<and> js_prop (JObj [(''type'', JStr ''role''), (''role'', JStr ''viewer'')]) ''type''
       = Inr (Some (JStr ''role''))
   \<and> js_prop (JObj [(''type'', JStr ''role''), (''role'', JStr ''viewer'')]) ''role''
       = Inr (Some (JStr ''viewer''))
   \<and> on_message sample_parse 3 role_viewer_frame live =
       Inr (live\<lparr>role := (role live)(3 := Some (JStr ''viewer'')),
                 viewers := [1, 2, 3], sent := sent live @ [(3, sender_connected)]\<rparr>)
   \<and> on_message sample_parse 3 role_viewer_frame viewer_only =
       Inr (viewer_only\<lparr>role := (role viewer_only)(3 := Some (JStr ''viewer'')),
                 viewers := [1, 3], sent := sent viewer_only @ [(3, sender_disconnected)]\<rparr>)"
proof -
  let ?d = "JObj [(''type'', JStr ''role''), (''role'', JStr ''viewer'')]"
  have p: "sample_parse role_viewer_frame = Some ?d" by (simp add: sample_parse_simps)
  have t: "js_prop ?d ''type'' = Inr (Some (JStr ''role''))" by simp
  have r: "js_prop ?d ''role'' = Inr (Some (JStr ''viewer''))" by simp
  from viewer_join_notified [where JSON_parse = sample_parse and raw = role_viewer_frame
      and ws = 3 and st = live, OF p t r]
  have a: "on_message sample_parse 3 role_viewer_frame live =
       Inr (live\<lparr>role := (role live)(3 := Some (JStr ''viewer'')),
                 viewers := [1, 2, 3], sent := sent live @ [(3, sender_connected)]\<rparr>)"
    by (simp add: live_def set_add_def)
  from viewer_join_notified [where JSON_parse = sample_parse and raw = role_viewer_frame
      and ws = 3 and st = viewer_only, OF p t r]
  have b: "on_message sample_parse 3 role_viewer_frame viewer_only =
       Inr (viewer_only\<lparr>role := (role viewer_only)(3 := Some (JStr ''viewer'')),
                 viewers := [1, 3], sent := sent viewer_only @ [(3, sender_disconnected)]\<rparr>)"
    by (simp add: viewer_only_def set_add_def)
  from p t r a b show ?thesis by blast
qed

text \<open>
  The claim C3 as stated fails. In \<open>sender_only\<close> connection 0 has the role \<open>sender\<close>; a
  further declaration with role \<open>viewer\<close> rebinds its role to \<open>viewer\<close> and puts it into
  the viewer set. The handler runs \<open>role = data.role\<close> and the registration on every
  declaration.
\<close>

theorem second_declaration_counterexample:
  "run sample_parse [Connection 0, Message 0 role_sender_frame] init = Some sender_only
   \<and> role sender_only 0 = Some (JStr ''sender'') \<and> viewers sender_only = []
   \<and> on_message sample_parse 0 role_viewer_frame sender_only =
       Inr (sender_only\<lparr>role := (role sender_only)(0 := Some (JStr ''viewer'')),
                        viewers := [0], sent := [(0, sender_connected)]\<rparr>)"
  by (simp add: run_simps sender_only_def)

text \<open>
  C3, amended. For a connection whose role is \<open>sender\<close> or \<open>viewer\<close>, a further role
  declaration is processed like the first one. The role is rebound to the declared
  value; a declared \<open>sender\<close> takes the sender slot, a declared \<open>viewer\<close> is added to the
  viewer set unless it is there already, and any other value registers nothing; the
  notifications of the declaration are sent. Hence the role, the sender slot and the
  viewer set are all unchanged exactly when the declaration names the role the
  connection already has and the connection is still registered in that role (it is the
  current sender, or it is in the viewer set); then the only effect is that the
  notifications are sent again.
\<close>

theorem further_declaration:
  assumes "JSON_parse raw = Some data"
    and "js_prop data ''type'' = Inr (Some (JStr ''role''))"
    and "js_prop data ''role'' = Inr r"
    and "role st ws = Some (JStr ''sender'') \<or> role st ws = Some (JStr ''viewer'')"
  shows "on_message JSON_parse ws raw st = Inr (declare_role ws r st)
       \<and> declare_role ws r st =
           st\<lparr>role := (role st)(ws := r),
              sender := (if r = Some (JStr ''sender'') then Some ws else sender st),
              viewers := (if r = Some (JStr ''viewer'') then set_add ws (viewers st)
                          else viewers st),
              sent := sent st @
                (if r = Some (JStr ''sender'')
                 then map (\<lambda>v. (v, sender_connected)) (filter (is_open st) (viewers st))
                 else if r = Some (JStr ''viewer'')
                 then [(ws, if sender st \<noteq> None then sender_connected
                            else sender_disconnected)]
                 else [])\<rparr>
       \<and> ((role (declare_role ws r st) = role st
            \<and> sender (declare_role ws r st) = sender st
            \<and> viewers (declare_role ws r st) = viewers st)
          \<longleftrightarrow> (r = role st ws
               \<and> ((r = Some (JStr ''sender'') \<and> sender st = Some ws)
                  \<or> (r = Some (JStr ''viewer'') \<and> ws \<in> set (viewers st)))))
       \<and> (r = role st ws
            \<and> ((r = Some (JStr ''sender'') \<and> sender st = Some ws)
               \<or> (r = Some (JStr ''viewer'') \<and> ws \<in> set (viewers st)))
          \<longrightarrow> on_message JSON_parse ws raw st =
                Inr (st\<lparr>sent := sent st @
                  (if r = Some (JStr ''sender'')
                   then map (\<lambda>v. (v, sender_connected)) (filter (is_open st) (viewers st))
                   else [(ws, if sender st \<noteq> None then sender_connected
                              else sender_disconnected)])\<rparr>))"
proof (intro conjI)
  show m: "on_message JSON_parse ws raw st = Inr (declare_role ws r st)"
    using assms(1-3) by (simp add: on_message_def)
  show "declare_role ws r st =
           st\<lparr>role := (role st)(ws := r),
              sender := (if r = Some (JStr ''sender'') then Some ws else sender st),
              viewers := (if r = Some (JStr ''viewer'') then set_add ws (viewers st)
                          else viewers st),
              sent := sent st @
                (if r = Some (JStr ''sender'')
                 then map (\<lambda>v. (v, sender_connected)) (filter (is_open st) (viewers st))
                 else if r = Some (JStr ''viewer'')
                 then [(ws, if sender st \<noteq> None then sender_connected
                            else sender_disconnected)]
                 else [])\<rparr>"
    by (rule declare_role_eq)
  have ru: "((role st)(ws := r) = role st) = (r = role st ws)"
    by (auto simp: fun_upd_idem_iff)
  have va: "(set_add ws (viewers st) = viewers st) = (ws \<in> set (viewers st))"
    by (simp add: set_add_def)
  show "(role (declare_role ws r st) = role st
            \<and> sender (declare_role ws r st) = sender st
            \<and> viewers (declare_role ws r st) = viewers st)
          \<longleftrightarrow> (r = role st ws
               \<and> ((r = Some (JStr ''sender'') \<and> sender st = Some ws)
                  \<or> (r = Some (JStr ''viewer'') \<and> ws \<in> set (viewers st))))"
    using assms(4) by (auto simp: declare_role_eq ru va)
  show "r = role st ws
            \<and> ((r = Some (JStr ''sender'') \<and> sender st = Some ws)
               \<or> (r = Some (JStr ''viewer'') \<and> ws \<in> set (viewers st)))
          \<longrightarrow> on_message JSON_parse ws raw st =
                Inr (st\<lparr>sent := sent st @
                  (if r = Some (JStr ''sender'')
                   then map (\<lambda>v. (v, sender_connected)) (filter (is_open st) (viewers st))
                   else [(ws, if sender st \<noteq> None then sender_connected
                              else sender_disconnected)])\<rparr>)"
    unfolding m by (auto simp: declare_role_eq set_add_def)
qed

theorem further_declaration_witness:
  "sample_parse role_sender_frame =
     Some (JObj [(''type'', JStr ''role''), (''role'', JStr ''sender'')])
   \<and> js_prop (JObj [(''type'', JStr ''role''), (''role'', JStr ''sender'')]) ''type''
       = Inr (Some (JStr ''role''))
   \<and> js_prop (JObj [(''type'', JStr ''role''), (''role'', JStr ''sender'')]) ''role''
       = Inr (Some (JStr ''sender''))
   \<and> sample_parse role_unknown_frame =
     Some (JObj [(''type'', JStr ''role''), (''role'', JStr ''unknown'')])
   \<and> js_prop (JObj [(''type'', JStr ''role''), (''role'', JStr ''unknown'')]) ''type''
       = Inr (Some (JStr ''role''))
   \<and> js_prop (JObj [(''type'', JStr ''role''), (''role'', JStr ''unknown'')]) ''role''
       = Inr (Some (JStr ''unknown''))
   \<and> role live 0 = Some (JStr ''sender'') \<and> sender live = Some 0
   \<and> role live 1 = Some (JStr ''viewer'')
   \<and> on_message sample_parse 0 role_sender_frame live =
       Inr (live\<lparr>sent := sent live @ [(1, sender_connected)]\<rparr>)
   \<and> on_message sample_parse 1 role_sender_frame live =
       Inr (live\<lparr>role := (role live)(1 := Some (JStr ''sender'')), sender := Some 1,
                 sent := sent live @ [(1, sender_connected)]\<rparr>)
   \<and> on_message sample_parse 0 role_unknown_frame live =
       Inr (live\<lparr>role := (role live)(0 := Some (JStr ''unknown''))\<rparr>)"
proof -
  let ?s = "JObj [(''type'', JStr ''role''), (''role'', JStr ''sender'')]"
  let ?u = "JObj [(''type'', JStr ''role''), (''role'', JStr ''unknown'')]"
  have ps: "sample_parse role_sender_frame = Some ?s" by (simp add: sample_parse_simps)
  have ts: "js_prop ?s ''type'' = Inr (Some (JStr ''role''))" by simp
  have rs: "js_prop ?s ''role'' = Inr (Some (JStr ''sender''))" by simp
  have pu: "sample_parse role_unknown_frame = Some ?u" by (simp add: sample_parse_simps)
  have tu: "js_prop ?u ''type'' = Inr (Some (JStr ''role''))" by simp
  have ru: "js_prop ?u ''role'' = Inr (Some (JStr ''unknown''))" by simp
  have r0: "role live 0 = Some (JStr ''sender'')" and s0: "sender live = Some 0"
    and r1: "role live 1 = Some (JStr ''viewer'')"
    by (simp_all add: live_def)
  from further_declaration [where JSON_parse = sample_parse and raw = role_sender_frame
      and ws = 0 and st = live, OF ps ts rs] r0 s0
  have a: "on_message sample_parse 0 role_sender_frame live =
       Inr (live\<lparr>sent := sent live @ [(1, sender_connected)]\<rparr>)"
    by (simp add: live_def is_open_def fun_upd_twist)
  from further_declaration [where JSON_parse = sample_parse and raw = role_sender_frame
      and ws = 1 and st = live, OF ps ts rs] r1
  have b: "on_message sample_parse 1 role_sender_frame live =
       Inr (live\<lparr>role := (role live)(1 := Some (JStr ''sender'')), sender := Some 1,
                 sent := sent live @ [(1, sender_connected)]\<rparr>)"
    by (simp add: live_def is_open_def fun_upd_twist)
  from further_declaration [where JSON_parse = sample_parse and raw = role_unknown_frame
      and ws = 0 and st = live, OF pu tu ru] r0
  have c: "on_message sample_parse 0 role_unknown_frame live =
       Inr (live\<lparr>role := (role live)(0 := Some (JStr ''unknown''))\<rparr>)"
    by (simp add: live_def fun_upd_twist)
  from ps ts rs pu tu ru r0 s0 r1 a b c show ?thesis by blast
qed

section \<open>The relay: forwarding\<close>

text \<open>
  C4. When an \<open>answer\<close> or an \<open>ice-candidate\<close> frame arrives on a connection whose role is
  \<open>sender\<close>, the handler returns normally and its calls of \<open>send\<close> are exactly these: one
  per member of the viewer set whose socket is open, in the set's order, each with the
  frame as it arrived. Nothing else in the state changes.
\<close>

theorem sender_frame_broadcast:
  assumes "JSON_parse raw = Some data"
    and "js_prop data ''type'' = Inr ty"
    and "ty = Some (JStr ''answer'') \<or> ty = Some (JStr ''ice-candidate'')"
    and "role st ws = Some (JStr ''sender'')"
  shows "on_message JSON_parse ws raw st =
           Inr (st\<lparr>sent := sent st @ map (\<lambda>v. (v, raw)) (filter (is_open st) (viewers st))\<rparr>)"
  using assms by (auto simp: on_message_def relay_signaling_def send_if_open_eq)

theorem sender_frame_broadcast_witness:
  "sample_parse answer_frame = Some (JObj [(''type'', JStr ''answer''), (''sdp'', JStr ''Y'')])
   \<and> js_prop (JObj [(''type'', JStr ''answer''), (''sdp'', JStr ''Y'')]) ''type''
       = Inr (Some (JStr ''answer''))
   \<and> sample_parse ice_frame =
       Some (JObj [(''type'', JStr ''ice-candidate''), (''candidate'', JStr ''Z'')])
   \<and> js_prop (JObj [(''type'', JStr ''ice-candidate''), (''candidate'', JStr ''Z'')]) ''type''
       = Inr (Some (JStr ''ice-candidate''))
   \<and> role live 0 = Some (JStr ''sender'')
   \<and> on_message sample_parse 0 answer_frame live =
       Inr (live\<lparr>sent := sent live @ [(1, answer_frame)]\<rparr>)
   \<and> on_message sample_parse 0 ice_frame live =
       Inr (live\<lparr>sent := sent live @ [(1, ice_frame)]\<rparr>)"
proof -
  let ?a = "JObj [(''type'', JStr ''answer''), (''sdp'', JStr ''Y'')]"
  let ?i = "JObj [(''type'', JStr ''ice-candidate''), (''candidate'', JStr ''Z'')]"
  have pa: "sample_parse answer_frame = Some ?a" by (simp add: sample_parse_simps)
  have ta: "js_prop ?a ''type'' = Inr (Some (JStr ''answer''))" by simp
  have pi: "sample_parse ice_frame = Some ?i" by (simp add: sample_parse_simps)
  have ti: "js_prop ?i ''type'' = Inr (Some (JStr ''ice-candidate''))" by simp
  have r: "role live 0 = Some (JStr ''sender'')" by (simp add: live_def)
  from sender_frame_broadcast [where JSON_parse = sample_parse and raw = answer_frame
      and ws = 0 and st = live, OF pa ta _ r]
  have a: "on_message sample_parse 0 answer_frame live =
       Inr (live\<lparr>sent := sent live @ [(1, answer_frame)]\<rparr>)"
    by (simp add: live_def is_open_def)
  from sender_frame_broadcast [where JSON_parse = sample_parse and raw = ice_frame
      and ws = 0 and st = live, OF pi ti _ r]
  have i: "on_message sample_parse 0 ice_frame live =
       Inr (live\<lparr>sent := sent live @ [(1, ice_frame)]\<rparr>)"
    by (simp add: live_def is_open_def)
  from pa ta pi ti r a i show ?thesis by blast
qed

text \<open>
  C5. When an \<open>offer\<close> or an \<open>ice-candidate\<close> frame arrives on a connection whose role is
  \<open>viewer\<close>, the handler returns normally; if the sender slot holds a connection whose
  socket is open, it has called \<open>send\<close> once, on that connection, with the frame as it
  arrived; otherwise it has called \<open>send\<close> on nobody and the state is as before.
\<close>

theorem viewer_frame_to_sender:
  assumes "JSON_parse raw = Some data"
    and "js_prop data ''type'' = Inr ty"
    and "ty = Some (JStr ''offer'') \<or> ty = Some (JStr ''ice-candidate'')"
    and "role st ws = Some (JStr ''viewer'')"
  shows "on_message JSON_parse ws raw st =
           Inr (case sender st of
                  None \<Rightarrow> st
                | Some s \<Rightarrow> if is_open st s then st\<lparr>sent := sent st @ [(s, raw)]\<rparr> else st)"
  using assms
  by (auto simp: on_message_def relay_signaling_def sender_open_def sender_send_def send_def
      split: option.splits)

theorem viewer_frame_to_sender_witness:
  "sample_parse offer_frame = Some (JObj [(''type'', JStr ''offer''), (''sdp'', JStr ''X'')])
   \<and> js_prop (JObj [(''type'', JStr ''offer''), (''sdp'', JStr ''X'')]) ''type''
       = Inr (Some (JStr ''offer''))
   \<and> sample_parse ice_frame =
       Some (JObj [(''type'', JStr ''ice-candidate''), (''candidate'', JStr ''Z'')])
   \<and> js_prop (JObj [(''type'', JStr ''ice-candidate''), (''candidate'', JStr ''Z'')]) ''type''
       = Inr (Some (JStr ''ice-candidate''))
   \<and> role live 1 = Some (JStr ''viewer'') \<and> role viewer_only 1 = Some (JStr ''viewer'')
   \<and> on_message sample_parse 1 offer_frame live =
       Inr (live\<lparr>sent := sent live @ [(0, offer_frame)]\<rparr>)
   \<and> on_message sample_parse 1 ice_frame live =
       Inr (live\<lparr>sent := sent live @ [(0, ice_frame)]\<rparr>)
   \<and> on_message sample_parse 1 offer_frame viewer_only = Inr viewer_only"
proof -
  let ?o = "JObj [(''type'', JStr ''offer''), (''sdp'', JStr ''X'')]"
  let ?i = "JObj [(''type'', JStr ''ice-candidate''), (''candidate'', JStr ''Z'')]"
  have po: "sample_parse offer_frame = Some ?o" by (simp add: sample_parse_simps)
  have to: "js_prop ?o ''type'' = Inr (Some (JStr ''offer''))" by simp
  have pi: "sample_parse ice_frame = Some ?i" by (simp add: sample_parse_simps)
  have ti: "js_prop ?i ''type'' = Inr (Some (JStr ''ice-candidate''))" by simp
  have r: "role live 1 = Some (JStr ''viewer'')" by (simp add: live_def)
  have r': "role viewer_only 1 = Some (JStr ''viewer'')" by (simp add: viewer_only_def)
  from viewer_frame_to_sender [where JSON_parse = sample_parse and raw = offer_frame
      and ws = 1 and st = live, OF po to _ r]
  have a: "on_message sample_parse 1 offer_frame live =
       Inr (live\<lparr>sent := sent live @ [(0, offer_frame)]\<rparr>)"
    by (simp add: live_def is_open_def)
  from viewer_frame_to_sender [where JSON_parse = sample_parse and raw = ice_frame
      and ws = 1 and st = live, OF pi ti _ r]
  have b: "on_message sample_parse 1 ice_frame live =
       Inr (live\<lparr>sent := sent live @ [(0, ice_frame)]\<rparr>)"
    by (simp add: live_def is_open_def)
  from viewer_frame_to_sender [where JSON_parse = sample_parse and raw = offer_frame
      and ws = 1 and st = viewer_only, OF po to _ r']
  have c: "on_message sample_parse 1 offer_frame viewer_only = Inr viewer_only"
    by (simp add: viewer_only_def)
  from po to pi ti r r' a b c show ?thesis by blast
qed

text \<open>
  C6. A frame whose type does not fit the role of the connection it arrives on (an
  \<open>offer\<close> on a \<open>sender\<close> connection, an \<open>answer\<close> on a \<open>viewer\<close> connection, or a frame
  that is not a role declaration on a connection whose role is \<open>unknown\<close>) is dropped: the
  handler returns normally and the whole state is as before, so no \<open>send\<close> was called
  (no relay, no notification, no error to the originator) and the sender slot and the
  viewer set are unchanged.
\<close>

theorem role_mismatch_dropped:
  assumes "JSON_parse raw = Some data"
    and "js_prop data ''type'' = Inr ty"
    and "(ty = Some (JStr ''offer'') \<and> role st ws = Some (JStr ''sender''))
       \<or> (ty = Some (JStr ''answer'') \<and> role st ws = Some (JStr ''viewer''))
       \<or> (ty \<noteq> Some (JStr ''role'') \<and> role st ws = Some (JStr ''unknown''))"
  shows "on_message JSON_parse ws raw st = Inr st"
  using assms by (auto simp: on_message_def relay_signaling_def)

theorem role_mismatch_dropped_witness:
  "sample_parse offer_frame = Some (JObj [(''type'', JStr ''offer''), (''sdp'', JStr ''X'')])
   \<and> js_prop (JObj [(''type'', JStr ''offer''), (''sdp'', JStr ''X'')]) ''type''
       = Inr (Some (JStr ''offer''))
   \<and> sample_parse answer_frame = Some (JObj [(''type'', JStr ''answer''), (''sdp'', JStr ''Y'')])
   \<and> js_prop (JObj [(''type'', JStr ''answer''), (''sdp'', JStr ''Y'')]) ''type''
       = Inr (Some (JStr ''answer''))
   \<and> sample_parse ice_frame =
       Some (JObj [(''type'', JStr ''ice-candidate''), (''candidate'', JStr ''Z'')])
   \<and> js_prop (JObj [(''type'', JStr ''ice-candidate''), (''candidate'', JStr ''Z'')]) ''type''
       = Inr (Some (JStr ''ice-candidate''))
   \<and> role live 0 = Some (JStr ''sender'') \<and> role live 1 = Some (JStr ''viewer'')
   \<and> role live 3 = Some (JStr ''unknown'')
   \<and> on_message sample_parse 0 offer_frame live = Inr live
   \<and> on_message sample_parse 1 answer_frame live = Inr live
   \<and> on_message sample_parse 3 ice_frame live = Inr live
   \<and> on_message sample_parse 3 offer_frame live = Inr live"
proof -
  let ?o = "JObj [(''type'', JStr ''offer''), (''sdp'', JStr ''X'')]"
  let ?a = "JObj [(''type'', JStr ''answer''), (''sdp'', JStr ''Y'')]"
  let ?i = "JObj [(''type'', JStr ''ice-candidate''), (''candidate'', JStr ''Z'')]"
  have po: "sample_parse offer_frame = Some ?o" by (simp add: sample_parse_simps)
  have to: "js_prop ?o ''type'' = Inr (Some (JStr ''offer''))" by simp
  have pa: "sample_parse answer_frame = Some ?a" by (simp add: sample_parse_simps)
  have ta: "js_prop ?a ''type'' = Inr (Some (JStr ''answer''))" by simp
  have pi: "sample_parse ice_frame = Some ?i" by (simp add: sample_parse_simps)
  have ti: "js_prop ?i ''type'' = Inr (Some (JStr ''ice-candidate''))" by simp
  have r0: "role live 0 = Some (JStr ''sender'')" by (simp add: live_def)
  have r1: "role live 1 = Some (JStr ''viewer'')" by (simp add: live_def)
  have r3: "role live 3 = Some (JStr ''unknown'')" by (simp add: live_def)
  have a: "on_message sample_parse 0 offer_frame live = Inr live"
    using role_mismatch_dropped [where JSON_parse = sample_parse and raw = offer_frame
        and ws = 0 and st = live, OF po to] r0 by simp
  have b: "on_message sample_parse 1 answer_frame live = Inr live"
    using role_mismatch_dropped [where JSON_parse = sample_parse and raw = answer_frame
        and ws = 1 and st = live, OF pa ta] r1 by simp
  have c: "on_message sample_parse 3 ice_frame live = Inr live"
    using role_mismatch_dropped [where JSON_parse = sample_parse and raw = ice_frame
        and ws = 3 and st = live, OF pi ti] r3 by simp
  have d: "on_message sample_parse 3 offer_frame live = Inr live"
    using role_mismatch_dropped [where JSON_parse = sample_parse and raw = offer_frame
        and ws = 3 and st = live, OF po to] r3 by simp
  from po to pa ta pi ti r0 r1 r3 a b c d show ?thesis by blast
qed

text \<open>
  A frame on which \<open>JSON.parse\<close> throws is dropped: the \<open>catch\<close> returns, and the whole
  state is as before.
\<close>

lemma unparseable_frame_dropped:
  "JSON_parse raw = None \<Longrightarrow> on_message JSON_parse ws raw st = Inr st"
  by (simp add: on_message_def)

text \<open>
  C7 says that every frame that is not of the expected format is dropped silently and
  the connection stays open. The code does not do that for the text frame \<open>null\<close>: it is
  JSON, so \<open>JSON.parse\<close> returns \<open>null\<close> and the \<open>catch\<close> of line 19 is not taken; the read
  of \<open>data.type\<close> on line 22, outside the \<open>try\<close>, then raises a TypeError that nothing
  catches. In the reachable state \<open>live\<close>, with the frame arriving on the open connection
  1, the handler ends with the exception instead of returning, and the run of the relay
  ends there.
\<close>

theorem null_frame_not_dropped:
  "sample_parse null_frame = Some JNull
   \<and> run sample_parse live_events init = Some live
   \<and> enabled (Message 1 null_frame) live
   \<and> on_message sample_parse 1 null_frame live = Inl TypeError
   \<and> run sample_parse (live_events @ [Message 1 null_frame]) init = None"
  by (simp add: run_snoc live_reachable null_frame_raises sample_parse_simps live_def)

section \<open>The relay: closing a connection\<close>

text \<open>
  The claim C8 as stated fails in its second case. In \<open>both_roles\<close> connection 0 is in the
  viewer set and is also the current sender; when it closes, \<open>sender-disconnected\<close> is
  sent to viewer 1, where the claim says that the close of a registered viewer sends no
  notification to anyone. The two tests of the handler are independent \<open>if\<close>s.
\<close>

theorem viewer_close_counterexample:
  "run sample_parse
     [Connection 0, Connection 1, Message 1 role_viewer_frame, Message 0 role_sender_frame,
      Message 0 role_viewer_frame] init = Some both_roles
   \<and> 0 \<in> set (viewers both_roles)
   \<and> step sample_parse (Close 0) both_roles =
       Inr (both_roles\<lparr>readyState := (readyState both_roles)(0 \<mapsto> CLOSED),
                       sender := None, viewers := [1],
                       sent := sent both_roles @ [(1, sender_disconnected)]\<rparr>)"
  by (simp add: run_simps both_roles_def)

text \<open>
  C8, amended. Let a connection close in a state the relay has reached, its socket then
  being \<open>CLOSED\<close>. If it is the current sender, the sender slot is cleared and
  \<open>sender-disconnected\<close> is sent exactly once to each member of the viewer set whose
  socket is open, and to nobody else. If it is in the viewer set and is not the current
  sender, it is removed from the viewer set and nothing is sent; the rest of the state is
  unchanged. If it has never sent a role declaration, the state is unchanged.
\<close>

theorem close_effects:
  assumes "run JSON_parse evs init = Some st0"
    and "st = st0\<lparr>readyState := (readyState st0)(ws \<mapsto> CLOSED)\<rparr>"
  shows "(sender st = Some ws \<longrightarrow>
            sender (on_close ws st) = None
          \<and> sent (on_close ws st) =
              sent st @ map (\<lambda>v. (v, sender_disconnected)) (filter (is_open st) (viewers st))
          \<and> distinct (filter (is_open st) (viewers st)))
       \<and> (ws \<in> set (viewers st) \<and> sender st \<noteq> Some ws \<longrightarrow>
            on_close ws st = st\<lparr>viewers := set_delete ws (viewers st)\<rparr>
          \<and> set (set_delete ws (viewers st)) = set (viewers st) - {ws})
       \<and> (role_declarations JSON_parse ws evs = 0 \<longrightarrow> on_close ws st = st)"
proof (intro conjI impI)
  assume "sender st = Some ws"
  then show "sender (on_close ws st) = None"
    and "sent (on_close ws st) =
           sent st @ map (\<lambda>v. (v, sender_disconnected)) (filter (is_open st) (viewers st))"
    by (simp_all add: on_close_eq)
next
  from viewers_distinct [OF assms(1)] assms(2)
  show "distinct (filter (is_open st) (viewers st))" by simp
next
  assume "ws \<in> set (viewers st) \<and> sender st \<noteq> Some ws"
  then show "on_close ws st = st\<lparr>viewers := set_delete ws (viewers st)\<rparr>"
    by (simp add: on_close_eq)
next
  show "set (set_delete ws (viewers st)) = set (viewers st) - {ws}"
    by (simp add: set_delete_def)
next
  assume "role_declarations JSON_parse ws evs = 0"
  from undeclared_not_registered [OF assms(1) this] assms(2)
  show "on_close ws st = st" by (simp add: on_close_eq set_delete_def)
qed

theorem close_effects_witness:
  "run sample_parse live_events init = Some live
   \<and> sender (live\<lparr>readyState := (readyState live)(0 \<mapsto> CLOSED)\<rparr>) = Some 0
   \<and> sender (on_close 0 (live\<lparr>readyState := (readyState live)(0 \<mapsto> CLOSED)\<rparr>)) = None
   \<and> sent (on_close 0 (live\<lparr>readyState := (readyState live)(0 \<mapsto> CLOSED)\<rparr>)) =
       sent live @ [(1, sender_disconnected)]
   \<and> 1 \<in> set (viewers live) \<and> sender live \<noteq> Some 1
   \<and> on_close 1 (live\<lparr>readyState := (readyState live)(1 \<mapsto> CLOSED)\<rparr>) =
       live\<lparr>readyState := (readyState live)(1 \<mapsto> CLOSED), viewers := [2]\<rparr>
   \<and> role_declarations sample_parse 3 live_events = 0
   \<and> on_close 3 (live\<lparr>readyState := (readyState live)(3 \<mapsto> CLOSED)\<rparr>) =
       live\<lparr>readyState := (readyState live)(3 \<mapsto> CLOSED)\<rparr>"
proof -
  have s0: "sender (live\<lparr>readyState := (readyState live)(0 \<mapsto> CLOSED)\<rparr>) = Some 0"
    by (simp add: live_def)
  have v1: "1 \<in> set (viewers live) \<and> sender live \<noteq> Some 1" by (simp add: live_def)
  have d3: "role_declarations sample_parse 3 live_events = 0"
    by (simp add: role_declarations_def is_role_declaration_def live_events_def
        sample_parse_simps)
  from close_effects [OF live_reachable refl, of 0] s0
  have a: "sender (on_close 0 (live\<lparr>readyState := (readyState live)(0 \<mapsto> CLOSED)\<rparr>)) = None
    \<and> sent (on_close 0 (live\<lparr>readyState := (readyState live)(0 \<mapsto> CLOSED)\<rparr>)) =
       sent live @ [(1, sender_disconnected)]"
    by (simp add: live_def is_open_def)
  from close_effects [OF live_reachable refl, of 1] v1
  have b: "on_close 1 (live\<lparr>readyState := (readyState live)(1 \<mapsto> CLOSED)\<rparr>) =
       live\<lparr>readyState := (readyState live)(1 \<mapsto> CLOSED), viewers := [2]\<rparr>"
    by (simp add: live_def set_delete_def)
  from close_effects [OF live_reachable refl, of 3] d3
  have c: "on_close 3 (live\<lparr>readyState := (readyState live)(3 \<mapsto> CLOSED)\<rparr>) =
       live\<lparr>readyState := (readyState live)(3 \<mapsto> CLOSED)\<rparr>"
    by simp
  from live_reachable s0 v1 d3 a b c show ?thesis by blast
qed

section \<open>The controller: starting the streamer\<close>



text \<open>
  C10. When \<open>streamerProcess\<close> is not set, \<open>/start\<close> spawns a child, tracks it and replies
  \<open>{ok: true, status: 'started'}\<close>; the reply is made before the outcome of the spawn is
  known. If the spawn fails, the child's \<open>error\<close> event follows: its handler writes the
  error to the console and resets \<open>streamerProcess\<close>, and it replies nothing, so the
  replies remain those made so far.
\<close>

theorem start_reply_before_spawn_outcome:
  assumes "streamerProcess st = None"
  shows "replies (post_start st) = replies st @ [\<lparr>ok = True, status = ''started''\<rparr>]
       \<and> streamerProcess (post_start st) = Some (length (children st))
       \<and> streamerProcess (streamer_on_error err (post_start st)) = None
       \<and> console (streamer_on_error err (post_start st)) =
           console st @ [Starting_streamer, Streamer_error err]
       \<and> replies (streamer_on_error err (post_start st)) =
           replies st @ [\<lparr>ok = True, status = ''started''\<rparr>]
       \<and> children (streamer_on_error err (post_start st)) = children (post_start st)
       \<and> kills (streamer_on_error err (post_start st)) = kills st"
  using assms
  by (simp add: post_start_def streamer_on_error_def res_json_def spawn_def console_log_def)

theorem start_reply_before_spawn_outcome_witness:
  "streamerProcess booted = None
   \<and> replies (post_start booted) = [\<lparr>ok = True, status = ''started''\<rparr>]
   \<and> streamerProcess (post_start booted) = Some 1
   \<and> streamerProcess (streamer_on_error ''spawn python3 ENOENT'' (post_start booted)) = None
   \<and> console (streamer_on_error ''spawn python3 ENOENT'' (post_start booted)) =
       [Starting_signaling, Starting_streamer, Streamer_error ''spawn python3 ENOENT'']
   \<and> replies (streamer_on_error ''spawn python3 ENOENT'' (post_start booted)) =
       [\<lparr>ok = True, status = ''started''\<rparr>]"
proof -
  have b: "streamerProcess booted = None"
    by (simp add: booted_def startSignalingServer_def spawn_def console_log_def)
  have c: "children booted = [\<lparr>command = ''node'', args = [''signaling/server.js'']\<rparr>]"
    and r: "replies booted = []" and l: "console booted = [Starting_signaling]"
    by (simp_all add: booted_def startSignalingServer_def spawn_def console_log_def)
  from start_reply_before_spawn_outcome [OF b, of "''spawn python3 ENOENT''"] b c r l
  show ?thesis by simp
qed

end
